theory Spec2Isabelle
  imports Main "HOL-Library.Word"
begin

unbundle bit_operations_syntax

section \<open>The VFS dispatch layer of Tilck\<close>

text \<open>
  The functions embedded here are the ones of the VFS source file:
  \<^verbatim>\<open>vfs_open\<close>, \<^verbatim>\<open>vfs_dup\<close>, \<^verbatim>\<open>vfs_read\<close>, \<^verbatim>\<open>vfs_write\<close>, \<^verbatim>\<open>vfs_seek\<close>,
  \<^verbatim>\<open>vfs_mkdir\<close>, \<^verbatim>\<open>vfs_rmdir\<close>, \<^verbatim>\<open>vfs_unlink\<close> and \<^verbatim>\<open>vfs_get_new_device_id\<close>.

  Pointers are addresses (natural numbers, \<open>0\<close> is the null pointer) into two stores, one
  of mounted filesystems and one of open handles. A function pointer is an address too; the
  code behind it belongs to a driver and is supplied by the environment. A failed
  \<^verbatim>\<open>ASSERT\<close> and the use of a pointer that addresses nothing stop the kernel: both are
  values of the type \<open>stop\<close>. The assertion on preemption
  (\<^verbatim>\<open>NO_TEST_ASSERT(is_preemption_enabled())\<close>) concerns the scheduler, which has no
  counterpart in this embedding.
\<close>

subsection \<open>Constants of the headers\<close>

text \<open>
  The macros below are declared in headers of the C library and of the kernel that are
  not part of the VFS source file. The kernel implements the Linux i386 system-call
  interface; the macros carry the values of that interface. \<^verbatim>\<open>VFS_FS_RW\<close> is the kernel's own
  flag, bit 0 of the filesystem flags.

  The error kinds of the specification name these error numbers: NotFound is
  \<^verbatim>\<open>ENOENT\<close>, ReadOnlyFilesystem is \<^verbatim>\<open>EROFS\<close>, PermissionDenied is \<^verbatim>\<open>EPERM\<close>, BadDescriptor
  is \<^verbatim>\<open>EBADF\<close>, InvalidArgument is \<^verbatim>\<open>EINVAL\<close>, NotSeekable is \<^verbatim>\<open>ESPIPE\<close> and the
  "not supported" error is \<^verbatim>\<open>EOPNOTSUPP\<close>.
\<close>

definition EPERM :: int where "EPERM = 1"
definition ENOENT :: int where "ENOENT = 2"
definition EBADF :: int where "EBADF = 9"
definition EINVAL :: int where "EINVAL = 22"
definition ESPIPE :: int where "ESPIPE = 29"
definition EROFS :: int where "EROFS = 30"
definition EOPNOTSUPP :: int where "EOPNOTSUPP = 95"

definition O_WRONLY :: "32 word" where "O_WRONLY = 0x1"
definition O_RDWR :: "32 word" where "O_RDWR = 0x2"
definition O_ASYNC :: "32 word" where "O_ASYNC = 0x2000"
definition O_CLOEXEC :: "32 word" where "O_CLOEXEC = 0x80000"
definition O_TMPFILE :: "32 word" where "O_TMPFILE = 0x410000"
definition FD_CLOEXEC :: "32 word" where "FD_CLOEXEC = 0x1"
definition VFS_FS_RW :: "32 word" where "VFS_FS_RW = 0x1"

definition SEEK_SET :: int where "SEEK_SET = 0"
definition SEEK_CUR :: int where "SEEK_CUR = 1"
definition SEEK_END :: int where "SEEK_END = 2"

subsection \<open>Data model\<close>

type_synonym fs_ptr = nat
type_synonym fs_handle = nat
type_synonym fn_ptr = nat
type_synonym vfs_path = nat

abbreviation (input) NULL :: nat where "NULL \<equiv> 0"

text \<open>The operation table of a filesystem; a null entry is a capability the driver omits.\<close>

record fs_ops =
  fsops_open :: fn_ptr
  fsops_dup :: fn_ptr
  fsops_mkdir :: fn_ptr
  fsops_rmdir :: fn_ptr
  fsops_unlink :: fn_ptr

text \<open>A mounted filesystem: \<^verbatim>\<open>fs->flags\<close>, its reference count and \<^verbatim>\<open>fs->fsops\<close>.\<close>

record filesystem =
  fs_flags :: "32 word"
  ref_count :: int
  fsops :: fs_ops

text \<open>The data-operation table of a handle.\<close>

record file_ops =
  fops_read :: fn_ptr
  fops_write :: fn_ptr
  fops_seek :: fn_ptr

text \<open>
  The common head of every handle (\<^verbatim>\<open>fs_handle_base\<close>): \<^verbatim>\<open>hb->fs\<close>, \<^verbatim>\<open>hb->fops\<close>,
  \<^verbatim>\<open>hb->fd_flags\<close> and \<^verbatim>\<open>hb->fl_flags\<close>.
\<close>

record fs_handle_base =
  hb_fs :: fs_ptr
  fops :: file_ops
  fd_flags :: "32 word"
  fl_flags :: "32 word"

text \<open>
  The kernel memory the layer works on. \<open>drv\<close> is whatever else the drivers, the resolver
  and the mount registry keep (file contents, the mount table); the layer never looks at it.
\<close>

record 'd world =
  fss :: "fs_ptr \<rightharpoonup> filesystem"
  handles :: "fs_handle \<rightharpoonup> fs_handle_base"
  next_device_id :: "32 word"
  drv :: 'd

text \<open>
  What the layer did, in order. The trace is ghost state: the external functions receive the
  \<open>world\<close> only and cannot touch it.
\<close>

datatype drv_op = OpOpen | OpDup | OpMkdir | OpRmdir | OpUnlink | OpRead | OpWrite | OpSeek

datatype event =
    Lookup string
  | Retain fs_ptr
  | Release fs_ptr
  | FsExlock fs_ptr
  | FsExunlock fs_ptr
  | Resolve fs_ptr string
  | Shlock fs_handle
  | Shunlock fs_handle
  | Exlock fs_handle
  | Exunlock fs_handle
  | Driver drv_op fn_ptr

record 'd kstate =
  heap :: "'d world"
  trace :: "event list"

datatype stop = AssertFailed | BadPointer

definition emit :: "event \<Rightarrow> 'd kstate \<Rightarrow> 'd kstate" where
  "emit e s = s\<lparr>trace := trace s @ [e]\<rparr>"

definition handle_at :: "'d world \<Rightarrow> fs_handle \<Rightarrow> fs_handle_base option" where
  "handle_at w h = (if h = NULL then None else handles w h)"

definition fs_at :: "'d world \<Rightarrow> fs_ptr \<Rightarrow> filesystem option" where
  "fs_at w fs = (if fs = NULL then None else fss w fs)"

subsection \<open>External collaborators\<close>

text \<open>
  The mount registry, the resolver and the drivers are not part of the layer. Each is a
  function on the \<open>world\<close>, arbitrary in every theorem below. A driver function is
  selected by the function pointer found in the operation table. \<open>drv_open\<close> and
  \<open>drv_dup\<close> receive the content of the result cell (\<^verbatim>\<open>*out\<close>, \<^verbatim>\<open>*dup_h\<close>) and
  return its content after the call.
\<close>

record 'd env =
  mount_lookup :: "string \<Rightarrow> 'd world \<Rightarrow> (fs_ptr \<times> string) option"
  resolve :: "fs_ptr \<Rightarrow> string \<Rightarrow> 'd world \<Rightarrow> (int \<times> vfs_path) \<times> 'd world"
  drv_open :: "fn_ptr \<Rightarrow> vfs_path \<Rightarrow> fs_handle \<Rightarrow> 32 word \<Rightarrow> 32 word \<Rightarrow> 'd world
                 \<Rightarrow> (int \<times> fs_handle) \<times> 'd world"
  drv_dup :: "fn_ptr \<Rightarrow> fs_handle \<Rightarrow> fs_handle \<Rightarrow> 'd world \<Rightarrow> (int \<times> fs_handle) \<times> 'd world"
  drv_mkdir :: "fn_ptr \<Rightarrow> vfs_path \<Rightarrow> 32 word \<Rightarrow> 'd world \<Rightarrow> int \<times> 'd world"
  drv_rmdir :: "fn_ptr \<Rightarrow> vfs_path \<Rightarrow> 'd world \<Rightarrow> int \<times> 'd world"
  drv_unlink :: "fn_ptr \<Rightarrow> vfs_path \<Rightarrow> 'd world \<Rightarrow> int \<times> 'd world"
  drv_read :: "fn_ptr \<Rightarrow> fs_handle \<Rightarrow> nat \<Rightarrow> 32 word \<Rightarrow> 'd world \<Rightarrow> int \<times> 'd world"
  drv_write :: "fn_ptr \<Rightarrow> fs_handle \<Rightarrow> nat \<Rightarrow> 32 word \<Rightarrow> 'd world \<Rightarrow> int \<times> 'd world"
  drv_seek :: "fn_ptr \<Rightarrow> fs_handle \<Rightarrow> 32 word \<Rightarrow> int \<Rightarrow> 'd world \<Rightarrow> int \<times> 'd world"

text \<open>
  Modelled from the spec: \<^verbatim>\<open>retain_obj\<close> and \<^verbatim>\<open>release_obj\<close> are defined in a header that is
  not part of the VFS source file. "\<open>retain(fs)\<close> increments the reference count;
  \<open>release(fs)\<close> decrements it".
\<close>

definition retain_obj :: "fs_ptr \<Rightarrow> 'd kstate \<Rightarrow> stop + 'd kstate" where
  "retain_obj fs s =
     (case fs_at (heap s) fs of
        None \<Rightarrow> Inl BadPointer
      | Some f \<Rightarrow>
          Inr (emit (Retain fs)
                 (s\<lparr>heap := (heap s)\<lparr>fss := (fss (heap s))(fs \<mapsto> f\<lparr>ref_count := ref_count f + 1\<rparr>)\<rparr>\<rparr>)))"

definition release_obj :: "fs_ptr \<Rightarrow> 'd kstate \<Rightarrow> stop + 'd kstate" where
  "release_obj fs s =
     (case fs_at (heap s) fs of
        None \<Rightarrow> Inl BadPointer
      | Some f \<Rightarrow>
          Inr (emit (Release fs)
                 (s\<lparr>heap := (heap s)\<lparr>fss := (fss (heap s))(fs \<mapsto> f\<lparr>ref_count := ref_count f - 1\<rparr>)\<rparr>\<rparr>)))"

text \<open>
  Modelled from the spec: \<^verbatim>\<open>get_retained_fs_at\<close> belongs to the mount registry, which is not
  part of the VFS source file. "\<open>lookup_and_retain(absolute_path) -> (filesystem_handle,
  remaining_relative_path) | NotFound\<close>, where a successful call increments the
  filesystem's reference count". \<open>None\<close> is the null pointer the C function returns.
\<close>

definition get_retained_fs_at ::
  "'d env \<Rightarrow> string \<Rightarrow> 'd kstate \<Rightarrow> stop + ((fs_ptr \<times> string) option \<times> 'd kstate)" where
  "get_retained_fs_at env path s =
     (let s1 = emit (Lookup path) s in
      case mount_lookup env path (heap s1) of
        None \<Rightarrow> Inr (None, s1)
      | Some (fs, fs_path) \<Rightarrow>
          (case retain_obj fs s1 of
             Inl e \<Rightarrow> Inl e
           | Inr s2 \<Rightarrow> Inr (Some (fs, fs_path), s2)))"

text \<open>
  Modelled from the spec: the lock functions are defined in \<^verbatim>\<open>vfs_locking.c.h\<close>, which is not
  part of the VFS source file. The filesystem lock is exclusive only; the handle lock has a
  shared and an exclusive mode. In this sequential embedding taking or dropping a lock
  leaves an event and nothing else.
\<close>

definition vfs_fs_exlock :: "fs_ptr \<Rightarrow> 'd kstate \<Rightarrow> 'd kstate" where
  "vfs_fs_exlock fs s = emit (FsExlock fs) s"

definition vfs_fs_exunlock :: "fs_ptr \<Rightarrow> 'd kstate \<Rightarrow> 'd kstate" where
  "vfs_fs_exunlock fs s = emit (FsExunlock fs) s"

definition vfs_shlock :: "fs_handle \<Rightarrow> 'd kstate \<Rightarrow> 'd kstate" where
  "vfs_shlock h s = emit (Shlock h) s"

definition vfs_shunlock :: "fs_handle \<Rightarrow> 'd kstate \<Rightarrow> 'd kstate" where
  "vfs_shunlock h s = emit (Shunlock h) s"

definition vfs_exlock :: "fs_handle \<Rightarrow> 'd kstate \<Rightarrow> 'd kstate" where
  "vfs_exlock h s = emit (Exlock h) s"

definition vfs_exunlock :: "fs_handle \<Rightarrow> 'd kstate \<Rightarrow> 'd kstate" where
  "vfs_exunlock h s = emit (Exunlock h) s"

text \<open>
  Modelled from the spec: \<^verbatim>\<open>vfs_resolve\<close> is defined in \<^verbatim>\<open>vfs_resolve.c.h\<close>, which is not part
  of the VFS source file. "\<open>resolve(filesystem, relative_path) -> ResolvedPath | error\<close>";
  the result code is zero on success.
\<close>

definition vfs_resolve ::
  "'d env \<Rightarrow> fs_ptr \<Rightarrow> string \<Rightarrow> 'd kstate \<Rightarrow> (int \<times> vfs_path) \<times> 'd kstate" where
  "vfs_resolve env fs fs_path s =
     (case resolve env fs fs_path (heap s) of
        (r, w) \<Rightarrow> (r, emit (Resolve fs fs_path) (s\<lparr>heap := w\<rparr>)))"

text \<open>
  A call through a function pointer of an operation table: a null pointer cannot be
  called, and the call leaves an event. The caller reads the pointer from the store at the
  moment of the call.
\<close>

definition call_drv ::
  "drv_op \<Rightarrow> fn_ptr \<Rightarrow> (fn_ptr \<Rightarrow> 'd world \<Rightarrow> 'r \<times> 'd world) \<Rightarrow> 'd kstate \<Rightarrow> stop + ('r \<times> 'd kstate)" where
  "call_drv oper fn code s =
     (if fn = NULL then Inl BadPointer
      else case code fn (heap s) of
             (r, w) \<Rightarrow> Inr (r, emit (Driver oper fn) (s\<lparr>heap := w\<rparr>)))"

definition is_absolute :: "string \<Rightarrow> bool" where
  "is_absolute path = (case path of [] \<Rightarrow> False | c # _ \<Rightarrow> c = CHR ''/'')"

subsection \<open>Operations on a path\<close>

text \<open>
  \<^verbatim>\<open>vfs_open\<close>. A path is a string, so \<^verbatim>\<open>ASSERT(path != NULL)\<close> holds by typing;
  \<^verbatim>\<open>ASSERT(*path == '/')\<close> is \<open>is_absolute\<close>. \<open>out\<close> is the content of \<^verbatim>\<open>*out\<close> at entry;
  the result carries its content at exit.
\<close>

definition vfs_open ::
  "'d env \<Rightarrow> string \<Rightarrow> fs_handle \<Rightarrow> 32 word \<Rightarrow> 32 word \<Rightarrow> 'd kstate
     \<Rightarrow> stop + ((int \<times> fs_handle) \<times> 'd kstate)" where
  "vfs_open env path out flags mode s =
     (if \<not> is_absolute path then Inl AssertFailed
      else if flags AND O_ASYNC \<noteq> 0 then Inr ((- EINVAL, out), s)
      else if flags AND O_TMPFILE = O_TMPFILE then Inr ((- EOPNOTSUPP, out), s)
      else
        case get_retained_fs_at env path s of
          Inl e \<Rightarrow> Inl e
        | Inr (None, s1) \<Rightarrow> Inr ((- ENOENT, out), s1)
        | Inr (Some (fs, fs_path), s1) \<Rightarrow>
            (case vfs_resolve env fs fs_path (vfs_fs_exlock fs s1) of
               ((rc0, p), s2) \<Rightarrow>
                 (case (if rc0 = 0 then
                          (case fs_at (heap s2) fs of
                             None \<Rightarrow> Inl BadPointer
                           | Some f \<Rightarrow>
                               call_drv OpOpen (fsops_open (fsops f))
                                 (\<lambda>fn. drv_open env fn p out flags mode) s2)
                        else Inr ((rc0, out), s2)) of
                    Inl e \<Rightarrow> Inl e
                  | Inr ((rc, out'), s3) \<Rightarrow>
                      (let s4 = vfs_fs_exunlock fs s3 in
                       if rc = 0 then
                         (case handle_at (heap s4) out' of
                            None \<Rightarrow> Inl BadPointer
                          | Some hb \<Rightarrow>
                              (let hb1 = hb\<lparr>fl_flags := flags\<rparr>;
                                   hb2 = (if flags AND O_CLOEXEC \<noteq> 0
                                          then hb1\<lparr>fd_flags := fd_flags hb1 OR FD_CLOEXEC\<rparr>
                                          else hb1)
                               in Inr ((rc, out'),
                                       s4\<lparr>heap := (heap s4)\<lparr>handles := (handles (heap s4))(out' \<mapsto> hb2)\<rparr>\<rparr>)))
                       else
                         (case release_obj fs s4 of
                            Inl e \<Rightarrow> Inl e
                          | Inr s5 \<Rightarrow> Inr ((rc, out'), s5))))))"

text \<open>\<^verbatim>\<open>vfs_mkdir\<close>, \<^verbatim>\<open>vfs_rmdir\<close> and \<^verbatim>\<open>vfs_unlink\<close>.\<close>

definition vfs_mkdir :: "'d env \<Rightarrow> string \<Rightarrow> 32 word \<Rightarrow> 'd kstate \<Rightarrow> stop + (int \<times> 'd kstate)" where
  "vfs_mkdir env path mode s =
     (if \<not> is_absolute path then Inl AssertFailed
      else
        case get_retained_fs_at env path s of
          Inl e \<Rightarrow> Inl e
        | Inr (None, s1) \<Rightarrow> Inr (- ENOENT, s1)
        | Inr (Some (fs, fs_path), s1) \<Rightarrow>
            (case fs_at (heap s1) fs of
               None \<Rightarrow> Inl BadPointer
             | Some f \<Rightarrow>
                 if fs_flags f AND VFS_FS_RW = 0 then Inr (- EROFS, s1)
                 else if fsops_mkdir (fsops f) = NULL then Inr (- EPERM, s1)
                 else
                   (case vfs_resolve env fs fs_path (vfs_fs_exlock fs s1) of
                      ((rc0, p), s2) \<Rightarrow>
                        (case (if rc0 = 0 then
                                 (case fs_at (heap s2) fs of
                                    None \<Rightarrow> Inl BadPointer
                                  | Some f' \<Rightarrow>
                                      call_drv OpMkdir (fsops_mkdir (fsops f'))
                                        (\<lambda>fn. drv_mkdir env fn p mode) s2)
                               else Inr (rc0, s2)) of
                           Inl e \<Rightarrow> Inl e
                         | Inr (rc, s3) \<Rightarrow>
                             (case release_obj fs (vfs_fs_exunlock fs s3) of
                                Inl e \<Rightarrow> Inl e
                              | Inr s4 \<Rightarrow> Inr (rc, s4))))))"

definition vfs_rmdir :: "'d env \<Rightarrow> string \<Rightarrow> 'd kstate \<Rightarrow> stop + (int \<times> 'd kstate)" where
  "vfs_rmdir env path s =
     (if \<not> is_absolute path then Inl AssertFailed
      else
        case get_retained_fs_at env path s of
          Inl e \<Rightarrow> Inl e
        | Inr (None, s1) \<Rightarrow> Inr (- ENOENT, s1)
        | Inr (Some (fs, fs_path), s1) \<Rightarrow>
            (case fs_at (heap s1) fs of
               None \<Rightarrow> Inl BadPointer
             | Some f \<Rightarrow>
                 if fs_flags f AND VFS_FS_RW = 0 then Inr (- EROFS, s1)
                 else if fsops_rmdir (fsops f) = NULL then Inr (- EPERM, s1)
                 else
                   (case vfs_resolve env fs fs_path (vfs_fs_exlock fs s1) of
                      ((rc0, p), s2) \<Rightarrow>
                        (case (if rc0 = 0 then
                                 (case fs_at (heap s2) fs of
                                    None \<Rightarrow> Inl BadPointer
                                  | Some f' \<Rightarrow>
                                      call_drv OpRmdir (fsops_rmdir (fsops f'))
                                        (\<lambda>fn. drv_rmdir env fn p) s2)
                               else Inr (rc0, s2)) of
                           Inl e \<Rightarrow> Inl e
                         | Inr (rc, s3) \<Rightarrow>
                             (case release_obj fs (vfs_fs_exunlock fs s3) of
                                Inl e \<Rightarrow> Inl e
                              | Inr s4 \<Rightarrow> Inr (rc, s4))))))"

definition vfs_unlink :: "'d env \<Rightarrow> string \<Rightarrow> 'd kstate \<Rightarrow> stop + (int \<times> 'd kstate)" where
  "vfs_unlink env path s =
     (if \<not> is_absolute path then Inl AssertFailed
      else
        case get_retained_fs_at env path s of
          Inl e \<Rightarrow> Inl e
        | Inr (None, s1) \<Rightarrow> Inr (- ENOENT, s1)
        | Inr (Some (fs, fs_path), s1) \<Rightarrow>
            (case fs_at (heap s1) fs of
               None \<Rightarrow> Inl BadPointer
             | Some f \<Rightarrow>
                 if fs_flags f AND VFS_FS_RW = 0 then Inr (- EROFS, s1)
                 else if fsops_unlink (fsops f) = NULL then Inr (- EROFS, s1)
                 else
                   (case vfs_resolve env fs fs_path (vfs_fs_exlock fs s1) of
                      ((rc0, p), s2) \<Rightarrow>
                        (case (if rc0 = 0 then
                                 (case fs_at (heap s2) fs of
                                    None \<Rightarrow> Inl BadPointer
                                  | Some f' \<Rightarrow>
                                      call_drv OpUnlink (fsops_unlink (fsops f'))
                                        (\<lambda>fn. drv_unlink env fn p) s2)
                               else Inr (rc0, s2)) of
                           Inl e \<Rightarrow> Inl e
                         | Inr (rc, s3) \<Rightarrow>
                             (case release_obj fs (vfs_fs_exunlock fs s3) of
                                Inl e \<Rightarrow> Inl e
                              | Inr s4 \<Rightarrow> Inr (rc, s4))))))"

subsection \<open>Operations on a handle\<close>

text \<open>
  \<^verbatim>\<open>vfs_dup\<close>. \<open>dup_h\<close> is the content of \<^verbatim>\<open>*dup_h\<close> at entry; the result carries its
  content at exit. \<^verbatim>\<open>hb->fs\<close> is read again after the driver has run.
\<close>

definition vfs_dup ::
  "'d env \<Rightarrow> fs_handle \<Rightarrow> fs_handle \<Rightarrow> 'd kstate \<Rightarrow> stop + ((int \<times> fs_handle) \<times> 'd kstate)" where
  "vfs_dup env h dup_h s =
     (if h = NULL then Inl AssertFailed
      else if h = NULL then Inr ((- EBADF, dup_h), s)
      else
        case handle_at (heap s) h of
          None \<Rightarrow> Inl BadPointer
        | Some hb \<Rightarrow>
            (case fs_at (heap s) (hb_fs hb) of
               None \<Rightarrow> Inl BadPointer
             | Some f \<Rightarrow>
                 (case call_drv OpDup (fsops_dup (fsops f)) (\<lambda>fn. drv_dup env fn h dup_h) s of
                    Inl e \<Rightarrow> Inl e
                  | Inr ((rc, dup_h'), s1) \<Rightarrow>
                      if rc \<noteq> 0 then Inr ((rc, dup_h'), s1)
                      else
                        (case handle_at (heap s1) dup_h' of
                           None \<Rightarrow> Inl BadPointer
                         | Some d \<Rightarrow>
                             (let s2 = s1\<lparr>heap := (heap s1)\<lparr>handles :=
                                            (handles (heap s1))(dup_h' \<mapsto> d\<lparr>fd_flags := 0\<rparr>)\<rparr>\<rparr>
                              in case handle_at (heap s2) h of
                                   None \<Rightarrow> Inl BadPointer
                                 | Some hb' \<Rightarrow>
                                     (case retain_obj (hb_fs hb') s2 of
                                        Inl e \<Rightarrow> Inl e
                                      | Inr s3 \<Rightarrow>
                                          if dup_h' = NULL then Inl AssertFailed
                                          else Inr ((0, dup_h'), s3)))))))"

text \<open>\<^verbatim>\<open>vfs_read\<close> and \<^verbatim>\<open>vfs_write\<close>; \<open>buf\<close> is an address, \<open>buf_size\<close> a \<^verbatim>\<open>size_t\<close>.\<close>

definition vfs_read ::
  "'d env \<Rightarrow> fs_handle \<Rightarrow> nat \<Rightarrow> 32 word \<Rightarrow> 'd kstate \<Rightarrow> stop + (int \<times> 'd kstate)" where
  "vfs_read env h buf buf_size s =
     (if h = NULL then Inl AssertFailed
      else
        case handle_at (heap s) h of
          None \<Rightarrow> Inl BadPointer
        | Some hb \<Rightarrow>
            if fops_read (fops hb) = NULL then Inr (- EBADF, s)
            else if fl_flags hb AND O_WRONLY \<noteq> 0 \<and> \<not> (fl_flags hb AND O_RDWR \<noteq> 0)
              then Inr (- EBADF, s)
            else
              (case call_drv OpRead (fops_read (fops hb))
                      (\<lambda>fn. drv_read env fn h buf buf_size) (vfs_shlock h s) of
                 Inl e \<Rightarrow> Inl e
               | Inr (ret, s1) \<Rightarrow> Inr (ret, vfs_shunlock h s1)))"

definition vfs_write ::
  "'d env \<Rightarrow> fs_handle \<Rightarrow> nat \<Rightarrow> 32 word \<Rightarrow> 'd kstate \<Rightarrow> stop + (int \<times> 'd kstate)" where
  "vfs_write env h buf buf_size s =
     (if h = NULL then Inl AssertFailed
      else
        case handle_at (heap s) h of
          None \<Rightarrow> Inl BadPointer
        | Some hb \<Rightarrow>
            if fops_write (fops hb) = NULL then Inr (- EBADF, s)
            else if \<not> (fl_flags hb AND (O_WRONLY OR O_RDWR) \<noteq> 0)
              then Inr (- EBADF, s)
            else
              (case call_drv OpWrite (fops_write (fops hb))
                      (\<lambda>fn. drv_write env fn h buf buf_size) (vfs_exlock h s) of
                 Inl e \<Rightarrow> Inl e
               | Inr (ret, s1) \<Rightarrow> Inr (ret, vfs_exunlock h s1)))"

text \<open>
  \<^verbatim>\<open>vfs_seek\<close>. The offset is an \<^verbatim>\<open>s64\<close>; the cast \<^verbatim>\<open>(off_t) off\<close> keeps its low 32 bits
  (\<^verbatim>\<open>off_t\<close> has 32 bits on i386).
\<close>

definition vfs_seek ::
  "'d env \<Rightarrow> fs_handle \<Rightarrow> 64 word \<Rightarrow> int \<Rightarrow> 'd kstate \<Rightarrow> stop + (int \<times> 'd kstate)" where
  "vfs_seek env h off whence s =
     (if h = NULL then Inl AssertFailed
      else if whence \<noteq> SEEK_SET \<and> whence \<noteq> SEEK_CUR \<and> whence \<noteq> SEEK_END
        then Inr (- EINVAL, s)
      else
        case handle_at (heap s) h of
          None \<Rightarrow> Inl BadPointer
        | Some hb \<Rightarrow>
            if fops_seek (fops hb) = NULL then Inr (- ESPIPE, s)
            else
              (case call_drv OpSeek (fops_seek (fops hb))
                      (\<lambda>fn. drv_seek env fn h (ucast off) whence) (vfs_shlock h s) of
                 Inl e \<Rightarrow> Inl e
               | Inr (ret, s1) \<Rightarrow> Inr (ret, vfs_shunlock h s1)))"

subsection \<open>The device identifier allocator\<close>

text \<open>\<^verbatim>\<open>return next_device_id++;\<close> on the \<^verbatim>\<open>static u32 next_device_id\<close>.\<close>

definition vfs_get_new_device_id :: "'d kstate \<Rightarrow> 32 word \<times> 'd kstate" where
  "vfs_get_new_device_id s =
     (next_device_id (heap s),
      s\<lparr>heap := (heap s)\<lparr>next_device_id := next_device_id (heap s) + 1\<rparr>\<rparr>)"

text \<open>The result of call number \<open>n\<close> (counting from 0) in a run of calls that starts in \<open>s\<close>.\<close>

fun nth_device_id :: "nat \<Rightarrow> 'd kstate \<Rightarrow> 32 word" where
  "nth_device_id 0 s = fst (vfs_get_new_device_id s)"
| "nth_device_id (Suc n) s = nth_device_id n (snd (vfs_get_new_device_id s))"

text \<open>
  The kernel at boot: a \<^verbatim>\<open>static\<close> variable of C starts at zero, nothing is mounted and
  nothing is open.
\<close>

definition boot_state :: "unit kstate" where
  "boot_state =
     \<lparr>heap = \<lparr>fss = Map.empty, handles = Map.empty, next_device_id = 0, drv = ()\<rparr>,
      trace = []\<rparr>"

subsection \<open>A fake driver\<close>

text \<open>
  A filesystem at address 1 and an open handle at address 2, with a mount registry that
  maps every path to that filesystem, a resolver that answers \<open>rrc\<close>, and drivers that
  answer \<open>drc\<close>. On success the fake \<open>open\<close> and \<open>dup\<close> create the handle at address 3;
  \<open>open\<close> creates \<open>opened_handle\<close>, \<open>dup\<close> copies the original handle.
\<close>

definition full_fs_ops :: fs_ops where
  "full_fs_ops = \<lparr>fsops_open = 10, fsops_dup = 11, fsops_mkdir = 12, fsops_rmdir = 13,
                  fsops_unlink = 14\<rparr>"

definition bare_fs_ops :: fs_ops where
  "bare_fs_ops = \<lparr>fsops_open = 10, fsops_dup = 11, fsops_mkdir = NULL, fsops_rmdir = NULL,
                  fsops_unlink = NULL\<rparr>"

definition full_fops :: file_ops where
  "full_fops = \<lparr>fops_read = 20, fops_write = 21, fops_seek = 22\<rparr>"

definition bare_fops :: file_ops where
  "bare_fops = \<lparr>fops_read = NULL, fops_write = NULL, fops_seek = NULL\<rparr>"

definition fake_handle :: "32 word \<Rightarrow> file_ops \<Rightarrow> fs_handle_base" where
  "fake_handle fl ops = \<lparr>hb_fs = 1, fops = ops, fd_flags = FD_CLOEXEC, fl_flags = fl\<rparr>"

text \<open>
  The handle the fake \<open>open\<close> creates: no open-mode flags yet, and descriptor flags with
  bit 2 set and \<^verbatim>\<open>FD_CLOEXEC\<close> (bit 0) clear.
\<close>

definition opened_handle :: fs_handle_base where
  "opened_handle = \<lparr>hb_fs = 1, fops = full_fops, fd_flags = 4, fl_flags = 0\<rparr>"

definition fake_state :: "32 word \<Rightarrow> fs_ops \<Rightarrow> 32 word \<Rightarrow> file_ops \<Rightarrow> unit kstate" where
  "fake_state fsfl ops fl hops =
     \<lparr>heap = \<lparr>fss = [1 \<mapsto> \<lparr>fs_flags = fsfl, ref_count = 1, fsops = ops\<rparr>],
              handles = [2 \<mapsto> fake_handle fl hops],
              next_device_id = 0, drv = ()\<rparr>,
      trace = []\<rparr>"

definition fake_env :: "int \<Rightarrow> int \<Rightarrow> unit env" where
  "fake_env rrc drc =
     \<lparr>mount_lookup = (\<lambda>path w. Some (1, tl path)),
      resolve = (\<lambda>fs fs_path w. ((rrc, 7), w)),
      drv_open = (\<lambda>fn p out flags mode w.
         if drc = 0 then ((0, 3), w\<lparr>handles := (handles w)(3 \<mapsto> opened_handle)\<rparr>)
         else ((drc, out), w)),
      drv_dup = (\<lambda>fn h dup_h w.
         case handles w h of
           Some hb \<Rightarrow> if drc = 0 then ((0, 3), w\<lparr>handles := (handles w)(3 \<mapsto> hb)\<rparr>)
                      else ((drc, dup_h), w)
         | None \<Rightarrow> ((- EBADF, dup_h), w)),
      drv_mkdir = (\<lambda>fn p mode w. (drc, w)),
      drv_rmdir = (\<lambda>fn p w. (drc, w)),
      drv_unlink = (\<lambda>fn p w. (drc, w)),
      drv_read = (\<lambda>fn h buf buf_size w. (drc, w)),
      drv_write = (\<lambda>fn h buf buf_size w. (drc, w)),
      drv_seek = (\<lambda>fn h off whence w. (drc, w))\<rparr>"

text \<open>The events the layer added between two states, and the releases of \<open>fs\<close> among them.\<close>

definition new_events :: "'d kstate \<Rightarrow> 'd kstate \<Rightarrow> event list" where
  "new_events s s' = drop (length (trace s)) (trace s')"

definition releases :: "fs_ptr \<Rightarrow> event list \<Rightarrow> nat" where
  "releases fs evs = length (filter (\<lambda>e. e = Release fs) evs)"

text \<open>Whether an event is a call of the resolver or of a driver.\<close>

fun is_external :: "event \<Rightarrow> bool" where
  "is_external (Resolve fs fs_path) = True"
| "is_external (Driver oper fn) = True"
| "is_external e = False"

text \<open>
  Projections of an outcome: the value returned, the trace at return and the reference
  count of a filesystem at return. A stopped kernel returns nothing.
\<close>

definition returned :: "stop + ('a \<times> 'd kstate) \<Rightarrow> 'a option" where
  "returned r = (case r of Inl e \<Rightarrow> None | Inr (v, s) \<Rightarrow> Some v)"

definition events_of :: "stop + ('a \<times> 'd kstate) \<Rightarrow> event list" where
  "events_of r = (case r of Inl e \<Rightarrow> [] | Inr (v, s) \<Rightarrow> trace s)"

definition ref_count_of :: "fs_ptr \<Rightarrow> stop + ('a \<times> 'd kstate) \<Rightarrow> int option" where
  "ref_count_of fs r =
     (case r of
        Inl e \<Rightarrow> None
      | Inr (v, s) \<Rightarrow> (case fs_at (heap s) fs of None \<Rightarrow> None | Some f \<Rightarrow> Some (ref_count f)))"

section \<open>Theorems\<close>

subsection \<open>Unfolding rules\<close>

lemmas fake_defs =
  fake_env_def fake_state_def fake_handle_def opened_handle_def full_fs_ops_def bare_fs_ops_def full_fops_def
  bare_fops_def

lemmas step_defs =
  get_retained_fs_at_def retain_obj_def release_obj_def vfs_resolve_def call_drv_def
  vfs_fs_exlock_def vfs_fs_exunlock_def vfs_shlock_def vfs_shunlock_def vfs_exlock_def
  vfs_exunlock_def emit_def handle_at_def fs_at_def is_absolute_def Let_def

lemmas const_defs =
  EPERM_def ENOENT_def EBADF_def EINVAL_def ESPIPE_def EROFS_def EOPNOTSUPP_def
  O_WRONLY_def O_RDWR_def O_ASYNC_def O_CLOEXEC_def O_TMPFILE_def FD_CLOEXEC_def VFS_FS_RW_def
  SEEK_SET_def SEEK_CUR_def SEEK_END_def

lemmas outcome_defs = returned_def events_of_def ref_count_of_def

subsection \<open>Device identifiers\<close>

lemma nth_device_id_eq:
  "nth_device_id n s = next_device_id (heap s) + of_nat n"
  by (induction n arbitrary: s) (simp_all add: vfs_get_new_device_id_def)

text \<open>
  Claim C9, as amended. The allocator returns the current value of the counter and adds one
  to it. In a run of calls that starts with the counter at 0 (its value at boot), call
  number \<open>n\<close> returns \<open>n\<close> as long as \<open>n < 2^32\<close>, and an earlier call returns a strictly
  smaller identifier than a later one: among the first \<open>2^32\<close> calls no identifier is used
  twice.
\<close>

theorem vfs_get_new_device_id_nth:
  "next_device_id (heap s) = 0 \<Longrightarrow> m < n \<Longrightarrow> n < 2 ^ 32 \<Longrightarrow>
     fst (vfs_get_new_device_id s) = next_device_id (heap s) \<and>
     next_device_id (heap (snd (vfs_get_new_device_id s))) = next_device_id (heap s) + 1 \<and>
     unat (nth_device_id n s) = n \<and> nth_device_id m s < nth_device_id n s"
  by (simp add: nth_device_id_eq vfs_get_new_device_id_def word_less_nat_alt unat_of_nat)

theorem vfs_get_new_device_id_nth_witness:
  "next_device_id (heap boot_state) = 0 \<and> (3::nat) < 5 \<and> (5::nat) < 2 ^ 32 \<and>
   unat (nth_device_id 5 boot_state) = 5 \<and>
   nth_device_id 3 boot_state < nth_device_id 5 boot_state"
  using vfs_get_new_device_id_nth [of boot_state 3 5] by (simp add: boot_state_def)

text \<open>
  Claim C9 as stated fails: the counter is a \<^verbatim>\<open>u32\<close>. Call number \<open>2^32\<close> after boot does
  not return \<open>2^32\<close>; it returns 0, the identifier that call number 0 returned.
\<close>

theorem vfs_get_new_device_id_wraps:
  "next_device_id (heap boot_state) = 0 \<and>
   unat (nth_device_id (2 ^ 32) boot_state) \<noteq> 2 ^ 32 \<and>
   nth_device_id (2 ^ 32) boot_state = nth_device_id 0 boot_state"
  by (simp add: nth_device_id_eq boot_state_def)

subsection \<open>Rejected flags\<close>

text \<open>
  Claim C2, as amended. For every absolute path, every mode and every flags value that
  contains \<^verbatim>\<open>O_ASYNC\<close>, \<^verbatim>\<open>vfs_open\<close> returns \<^verbatim>\<open>-EINVAL\<close> (InvalidArgument). The state is
  returned as it was: no lookup in the mount registry, no retain and no resolution took
  place, and \<^verbatim>\<open>*out\<close> is not written.
\<close>

theorem vfs_open_async_einval:
  "is_absolute path \<Longrightarrow> flags AND O_ASYNC \<noteq> 0 \<Longrightarrow>
     vfs_open env path out flags mode s = Inr ((- EINVAL, out), s)"
  by (simp add: vfs_open_def)

theorem vfs_open_async_einval_witness:
  "is_absolute ''/a'' \<and> O_ASYNC AND O_ASYNC \<noteq> 0 \<and>
   vfs_open (fake_env 0 0) ''/a'' NULL O_ASYNC 0 (fake_state VFS_FS_RW full_fs_ops 0 full_fops)
     = Inr ((- EINVAL, NULL), fake_state VFS_FS_RW full_fs_ops 0 full_fops)"
  using vfs_open_async_einval
          [of "''/a''" O_ASYNC "fake_env 0 0" NULL 0 "fake_state VFS_FS_RW full_fs_ops 0 full_fops"]
  by (simp add: is_absolute_def O_ASYNC_def)

text \<open>
  Claim C2 as stated fails in the error it names: \<^verbatim>\<open>open("/a", O_ASYNC, 0)\<close> returns
  \<^verbatim>\<open>-EINVAL\<close>, which is not the "not supported" error \<^verbatim>\<open>-EOPNOTSUPP\<close> that the same
  function returns for \<^verbatim>\<open>O_TMPFILE\<close>.
\<close>

theorem vfs_open_async_not_eopnotsupp:
  "vfs_open (fake_env 0 0) ''/a'' NULL O_ASYNC 0 (fake_state VFS_FS_RW full_fs_ops 0 full_fops)
     = Inr ((- EINVAL, NULL), fake_state VFS_FS_RW full_fs_ops 0 full_fops) \<and>
   vfs_open (fake_env 0 0) ''/a'' NULL O_TMPFILE 0 (fake_state VFS_FS_RW full_fs_ops 0 full_fops)
     = Inr ((- EOPNOTSUPP, NULL), fake_state VFS_FS_RW full_fs_ops 0 full_fops) \<and>
   - EINVAL \<noteq> - EOPNOTSUPP"
  by (simp add: vfs_open_def is_absolute_def const_defs)

subsection \<open>Steps of the layer and the trace\<close>

lemma trace_emit: "trace (emit e s) = trace s @ [e]"
  by (simp add: emit_def)

lemma retain_obj_trace: "retain_obj fs s = Inr s' \<Longrightarrow> trace s' = trace s @ [Retain fs]"
  by (auto simp: retain_obj_def emit_def split: option.splits)

lemma release_obj_trace: "release_obj fs s = Inr s' \<Longrightarrow> trace s' = trace s @ [Release fs]"
  by (auto simp: release_obj_def emit_def split: option.splits)

lemma call_drv_trace:
  "call_drv oper fn code s = Inr (r, s') \<Longrightarrow> trace s' = trace s @ [Driver oper fn]"
  by (auto simp: call_drv_def emit_def split: if_splits prod.splits)

lemma vfs_resolve_trace:
  "vfs_resolve env fs fs_path s = (r, s') \<Longrightarrow> trace s' = trace s @ [Resolve fs fs_path]"
  by (auto simp: vfs_resolve_def emit_def split: prod.splits)

lemma get_retained_fs_at_trace:
  "get_retained_fs_at env path s = Inr (Some (fs, fs_path), s1) \<Longrightarrow>
     trace s1 = trace s @ [Lookup path, Retain fs]"
  by (auto simp: get_retained_fs_at_def Let_def trace_emit
           split: option.splits sum.splits dest!: retain_obj_trace)

lemma get_retained_fs_at_found:
  "mount_lookup env path (heap s) = Some (fs, fs_path) \<Longrightarrow> fs_at (heap s) fs = Some f \<Longrightarrow>
   get_retained_fs_at env path s =
     Inr (Some (fs, fs_path),
          \<lparr>heap = (heap s)\<lparr>fss := (fss (heap s))(fs \<mapsto> f\<lparr>ref_count := ref_count f + 1\<rparr>)\<rparr>,
           trace = trace s @ [Lookup path, Retain fs]\<rparr>)"
  by (simp add: get_retained_fs_at_def retain_obj_def emit_def Let_def)

lemma trace_grows_neq:
  "(s\<lparr>heap := w, trace := trace s @ e # es\<rparr> = s) = False"
proof
  assume "s\<lparr>heap := w, trace := trace s @ e # es\<rparr> = s"
  then have "trace (s\<lparr>heap := w, trace := trace s @ e # es\<rparr>) = trace s" by simp
  then show False by simp
qed simp

lemma and_or_zero_iff:
  "(x AND (a OR b) = 0) = (x AND a = 0 \<and> x AND b = 0)" for x :: "32 word"
  by (simp add: bit.conj_disj_distrib or_eq_0_iff)

lemma or_and_self: "(x OR b) AND b = b" for x :: "32 word"
  by (simp add: bit_eq_iff bit_simps)

subsection \<open>Read-only mounts and missing capabilities\<close>

text \<open>
  Claim C3. For every absolute path whose mount lookup succeeds on a filesystem whose
  read-write flag is clear, each of \<^verbatim>\<open>vfs_mkdir\<close>, \<^verbatim>\<open>vfs_rmdir\<close> and \<^verbatim>\<open>vfs_unlink\<close> returns
  \<^verbatim>\<open>-EROFS\<close>. The only events of the call are the lookup and its retain: neither the
  resolver nor a driver operation is invoked.
\<close>

theorem readonly_mount_erofs:
  assumes "is_absolute path"
    and "mount_lookup env path (heap s) = Some (fs, fs_path)"
    and "fs_at (heap s) fs = Some f"
    and "fs_flags f AND VFS_FS_RW = 0"
  shows "\<exists>s1. vfs_mkdir env path mode s = Inr (- EROFS, s1) \<and>
              vfs_rmdir env path s = Inr (- EROFS, s1) \<and>
              vfs_unlink env path s = Inr (- EROFS, s1) \<and>
              new_events s s1 = [Lookup path, Retain fs] \<and>
              filter is_external (new_events s s1) = []"
  using assms
  by (auto simp: vfs_mkdir_def vfs_rmdir_def vfs_unlink_def get_retained_fs_at_found
                 fs_at_def new_events_def split: if_splits)

theorem readonly_mount_erofs_witness:
  "is_absolute ''/a'' \<and>
   mount_lookup (fake_env 0 0) ''/a'' (heap (fake_state 0 full_fs_ops 0 full_fops)) = Some (1, ''a'') \<and>
   fs_at (heap (fake_state 0 full_fs_ops 0 full_fops)) 1
      = Some \<lparr>fs_flags = 0, ref_count = 1, fsops = full_fs_ops\<rparr> \<and>
   (0 :: 32 word) AND VFS_FS_RW = 0 \<and>
   (\<exists>s1. vfs_mkdir (fake_env 0 0) ''/a'' 0 (fake_state 0 full_fs_ops 0 full_fops) = Inr (- EROFS, s1) \<and>
         vfs_rmdir (fake_env 0 0) ''/a'' (fake_state 0 full_fs_ops 0 full_fops) = Inr (- EROFS, s1) \<and>
         vfs_unlink (fake_env 0 0) ''/a'' (fake_state 0 full_fs_ops 0 full_fops) = Inr (- EROFS, s1) \<and>
         new_events (fake_state 0 full_fs_ops 0 full_fops) s1 = [Lookup ''/a'', Retain 1] \<and>
         filter is_external (new_events (fake_state 0 full_fs_ops 0 full_fops) s1) = [])"
  using readonly_mount_erofs
          [of "''/a''" "fake_env 0 0" "fake_state 0 full_fs_ops 0 full_fops" 1 "''a''"
              "\<lparr>fs_flags = 0, ref_count = 1, fsops = full_fs_ops\<rparr>" 0]
  by (simp add: is_absolute_def fake_env_def fake_state_def fs_at_def)

text \<open>
  Claim C4. On a read-write mount whose driver omits the capability, \<^verbatim>\<open>vfs_unlink\<close>
  returns \<^verbatim>\<open>-EROFS\<close> while \<^verbatim>\<open>vfs_mkdir\<close> and \<^verbatim>\<open>vfs_rmdir\<close> return \<^verbatim>\<open>-EPERM\<close>. The only
  events of the call are the lookup and its retain: neither the resolver nor the driver is
  called.
\<close>

theorem missing_capability_errors:
  assumes "is_absolute path"
    and "mount_lookup env path (heap s) = Some (fs, fs_path)"
    and "fs_at (heap s) fs = Some f"
    and "fs_flags f AND VFS_FS_RW \<noteq> 0"
  shows "\<exists>s1. (fsops_unlink (fsops f) = NULL \<longrightarrow> vfs_unlink env path s = Inr (- EROFS, s1)) \<and>
              (fsops_mkdir (fsops f) = NULL \<longrightarrow> vfs_mkdir env path mode s = Inr (- EPERM, s1)) \<and>
              (fsops_rmdir (fsops f) = NULL \<longrightarrow> vfs_rmdir env path s = Inr (- EPERM, s1)) \<and>
              new_events s s1 = [Lookup path, Retain fs] \<and>
              filter is_external (new_events s s1) = []"
  using assms
  by (auto simp: vfs_mkdir_def vfs_rmdir_def vfs_unlink_def get_retained_fs_at_found
                 fs_at_def new_events_def split: if_splits)

theorem missing_capability_errors_witness:
  "is_absolute ''/a'' \<and>
   mount_lookup (fake_env 0 0) ''/a'' (heap (fake_state VFS_FS_RW bare_fs_ops 0 full_fops))
      = Some (1, ''a'') \<and>
   fs_at (heap (fake_state VFS_FS_RW bare_fs_ops 0 full_fops)) 1
      = Some \<lparr>fs_flags = VFS_FS_RW, ref_count = 1, fsops = bare_fs_ops\<rparr> \<and>
   VFS_FS_RW AND VFS_FS_RW \<noteq> 0 \<and>
   (\<exists>s1. vfs_unlink (fake_env 0 0) ''/a'' (fake_state VFS_FS_RW bare_fs_ops 0 full_fops)
            = Inr (- EROFS, s1) \<and>
         vfs_mkdir (fake_env 0 0) ''/a'' 0 (fake_state VFS_FS_RW bare_fs_ops 0 full_fops)
            = Inr (- EPERM, s1) \<and>
         vfs_rmdir (fake_env 0 0) ''/a'' (fake_state VFS_FS_RW bare_fs_ops 0 full_fops)
            = Inr (- EPERM, s1) \<and>
         new_events (fake_state VFS_FS_RW bare_fs_ops 0 full_fops) s1 = [Lookup ''/a'', Retain 1] \<and>
         filter is_external (new_events (fake_state VFS_FS_RW bare_fs_ops 0 full_fops) s1) = [])"
  using missing_capability_errors
          [of "''/a''" "fake_env 0 0" "fake_state VFS_FS_RW bare_fs_ops 0 full_fops" 1 "''a''"
              "\<lparr>fs_flags = VFS_FS_RW, ref_count = 1, fsops = bare_fs_ops\<rparr>" 0]
  by (simp add: is_absolute_def fake_env_def fake_state_def fs_at_def bare_fs_ops_def
                VFS_FS_RW_def)

subsection \<open>Seek\<close>

text \<open>
  Claim C6. For every (non-null) handle, \<^verbatim>\<open>vfs_seek\<close> with a \<open>whence\<close> other than
  \<^verbatim>\<open>SEEK_SET\<close>, \<^verbatim>\<open>SEEK_CUR\<close> and \<^verbatim>\<open>SEEK_END\<close> returns \<^verbatim>\<open>-EINVAL\<close> and leaves the state as it
  was, so the driver is not called; with a valid \<open>whence\<close> on a handle whose driver has no
  seek operation it returns \<^verbatim>\<open>-ESPIPE\<close>.
\<close>

theorem vfs_seek_errors:
  assumes "h \<noteq> NULL"
  shows "(whence \<noteq> SEEK_SET \<and> whence \<noteq> SEEK_CUR \<and> whence \<noteq> SEEK_END \<longrightarrow>
            vfs_seek env h off whence s = Inr (- EINVAL, s)) \<and>
         ((whence = SEEK_SET \<or> whence = SEEK_CUR \<or> whence = SEEK_END) \<longrightarrow>
            handle_at (heap s) h = Some hb \<longrightarrow> fops_seek (fops hb) = NULL \<longrightarrow>
            vfs_seek env h off whence s = Inr (- ESPIPE, s))"
  using assms by (auto simp: vfs_seek_def)

theorem vfs_seek_errors_witness:
  "(2 :: nat) \<noteq> NULL \<and>
   handle_at (heap (fake_state VFS_FS_RW full_fs_ops 0 bare_fops)) 2 = Some (fake_handle 0 bare_fops) \<and>
   fops_seek (fops (fake_handle 0 bare_fops)) = NULL \<and>
   vfs_seek (fake_env 0 0) 2 0 3 (fake_state VFS_FS_RW full_fs_ops 0 bare_fops)
     = Inr (- EINVAL, fake_state VFS_FS_RW full_fs_ops 0 bare_fops) \<and>
   vfs_seek (fake_env 0 0) 2 0 SEEK_END (fake_state VFS_FS_RW full_fs_ops 0 bare_fops)
     = Inr (- ESPIPE, fake_state VFS_FS_RW full_fs_ops 0 bare_fops)"
  using vfs_seek_errors [of 2 3 "fake_env 0 0" 0 "fake_state VFS_FS_RW full_fs_ops 0 bare_fops"
                            "fake_handle 0 bare_fops"]
        vfs_seek_errors [of 2 SEEK_END "fake_env 0 0" 0 "fake_state VFS_FS_RW full_fs_ops 0 bare_fops"
                            "fake_handle 0 bare_fops"]
  by (simp add: fake_state_def fake_handle_def bare_fops_def handle_at_def
                SEEK_SET_def SEEK_CUR_def SEEK_END_def)


subsection \<open>Open\<close>

lemma vfs_open_success_handle:
  assumes "vfs_open env path out flags mode s = Inr ((0, h), s')"
  shows "\<exists>hb. handle_at (heap s') h = Some hb \<and> fl_flags hb = flags \<and>
              (flags AND O_CLOEXEC \<noteq> 0 \<longrightarrow> fd_flags hb AND FD_CLOEXEC = FD_CLOEXEC)"
  using assms
  by (auto simp: vfs_open_def handle_at_def Let_def EINVAL_def EOPNOTSUPP_def ENOENT_def
                 or_and_self
           split: if_splits sum.splits option.splits prod.splits)

lemma vfs_open_after_driver:
  assumes "is_absolute path"
    and "flags AND O_ASYNC = 0" and "flags AND O_TMPFILE \<noteq> O_TMPFILE"
    and "get_retained_fs_at env path s = Inr (Some (fs, fs_path), s1)"
    and "vfs_resolve env fs fs_path (vfs_fs_exlock fs s1) = ((0, p), s2)"
    and "fs_at (heap s2) fs = Some f" and "fsops_open (fsops f) \<noteq> NULL"
    and "drv_open env (fsops_open (fsops f)) p out flags mode (heap s2) = ((0, d), w)"
    and "handle_at w d = Some dh"
  shows "\<exists>s'. vfs_open env path out flags mode s = Inr ((0, d), s') \<and>
              handles (heap s') =
                (handles w)(d \<mapsto> dh\<lparr>fl_flags := flags,
                                      fd_flags := (if flags AND O_CLOEXEC \<noteq> 0
                                                   then fd_flags dh OR FD_CLOEXEC
                                                   else fd_flags dh)\<rparr>)"
proof -
  have dn: "d \<noteq> NULL" using assms(9) by (auto simp: handle_at_def split: if_splits)
  have hd: "handles w d = Some dh" using assms(9) by (auto simp: handle_at_def split: if_splits)
  show ?thesis
    using assms(1-8) dn hd
    by (simp add: vfs_open_def call_drv_def vfs_fs_exunlock_def emit_def handle_at_def Let_def)
qed

text \<open>
  Claim C7. Whenever \<^verbatim>\<open>vfs_open\<close> succeeds (returns 0), the handle it returns carries
  exactly the \<open>flags\<close> argument in \<^verbatim>\<open>fl_flags\<close>, and if \<^verbatim>\<open>O_CLOEXEC\<close> was among the flags,
  the \<^verbatim>\<open>FD_CLOEXEC\<close> bit is set in its \<^verbatim>\<open>fd_flags\<close>. And \<^verbatim>\<open>vfs_open\<close> does succeed
  whenever the lookup, the resolver and the driver's \<open>open\<close> succeed and the driver has
  produced a handle: it then returns that handle, with \<^verbatim>\<open>fl_flags\<close> overwritten by \<open>flags\<close>
  and with \<^verbatim>\<open>FD_CLOEXEC\<close> or-ed into whatever \<^verbatim>\<open>fd_flags\<close> the driver left when
  \<^verbatim>\<open>O_CLOEXEC\<close> was requested (and \<^verbatim>\<open>fd_flags\<close> as the driver left it otherwise); no other
  handle is changed.
\<close>

theorem vfs_open_stamps_flags:
  "(vfs_open env path out flags mode s = Inr ((0, h), s') \<longrightarrow>
      (\<exists>hb. handle_at (heap s') h = Some hb \<and> fl_flags hb = flags \<and>
            (flags AND O_CLOEXEC \<noteq> 0 \<longrightarrow> fd_flags hb AND FD_CLOEXEC = FD_CLOEXEC))) \<and>
   (is_absolute path \<longrightarrow> flags AND O_ASYNC = 0 \<longrightarrow> flags AND O_TMPFILE \<noteq> O_TMPFILE \<longrightarrow>
    get_retained_fs_at env path s = Inr (Some (fs, fs_path), s1) \<longrightarrow>
    vfs_resolve env fs fs_path (vfs_fs_exlock fs s1) = ((0, p), s2) \<longrightarrow>
    fs_at (heap s2) fs = Some f \<longrightarrow> fsops_open (fsops f) \<noteq> NULL \<longrightarrow>
    drv_open env (fsops_open (fsops f)) p out flags mode (heap s2) = ((0, d), w) \<longrightarrow>
    handle_at w d = Some dh \<longrightarrow>
      (\<exists>t. vfs_open env path out flags mode s = Inr ((0, d), t) \<and>
            handles (heap t) =
              (handles w)(d \<mapsto> dh\<lparr>fl_flags := flags,
                                    fd_flags := (if flags AND O_CLOEXEC \<noteq> 0
                                                 then fd_flags dh OR FD_CLOEXEC
                                                 else fd_flags dh)\<rparr>)))"
  using vfs_open_success_handle [of env path out flags mode s h s']
        vfs_open_after_driver [of path flags env s fs fs_path s1 p s2 f out mode d w dh]
  by blast

theorem vfs_open_stamps_flags_witness:
  "fd_flags opened_handle AND FD_CLOEXEC = 0 \<and>
   (O_RDWR OR O_CLOEXEC) AND O_CLOEXEC \<noteq> 0 \<and>
   O_RDWR AND O_CLOEXEC = 0 \<and>
   (\<exists>t. vfs_open (fake_env 0 0) ''/a'' NULL (O_RDWR OR O_CLOEXEC) 0
           (fake_state VFS_FS_RW full_fs_ops 0 full_fops) = Inr ((0, 3), t) \<and>
        handle_at (heap t) 3
          = Some \<lparr>hb_fs = 1, fops = full_fops, fd_flags = 5, fl_flags = O_RDWR OR O_CLOEXEC\<rparr>) \<and>
   (\<exists>t. vfs_open (fake_env 0 0) ''/a'' NULL O_RDWR 0
           (fake_state VFS_FS_RW full_fs_ops 0 full_fops) = Inr ((0, 3), t) \<and>
        handle_at (heap t) 3
          = Some \<lparr>hb_fs = 1, fops = full_fops, fd_flags = 4, fl_flags = O_RDWR\<rparr>)"
proof -
  let ?e = "fake_env 0 0"
  let ?s = "fake_state VFS_FS_RW full_fs_ops 0 full_fops"
  let ?f = "\<lparr>fs_flags = VFS_FS_RW, ref_count = 2, fsops = full_fs_ops\<rparr>"
  let ?s1 = "\<lparr>heap = (heap ?s)\<lparr>fss := [1 \<mapsto> ?f]\<rparr>, trace = [Lookup ''/a'', Retain 1]\<rparr>"
  let ?s2 = "\<lparr>heap = (heap ?s)\<lparr>fss := [1 \<mapsto> ?f]\<rparr>,
             trace = [Lookup ''/a'', Retain 1, FsExlock 1, Resolve 1 ''a'']\<rparr>"
  let ?w = "(heap ?s2)\<lparr>handles := (handles (heap ?s2))(3 \<mapsto> opened_handle)\<rparr>"
  have a: "is_absolute ''/a''" by (simp add: is_absolute_def)
  have b1: "(O_RDWR OR O_CLOEXEC) AND O_ASYNC = 0"
    and b2: "(O_RDWR OR O_CLOEXEC) AND O_TMPFILE \<noteq> O_TMPFILE"
    and b3: "O_RDWR AND O_ASYNC = 0" and b4: "O_RDWR AND O_TMPFILE \<noteq> O_TMPFILE"
    and b5: "(O_RDWR OR O_CLOEXEC) AND O_CLOEXEC \<noteq> 0" and b6: "O_RDWR AND O_CLOEXEC = 0"
    by (simp_all add: const_defs)
  have g: "get_retained_fs_at ?e ''/a'' ?s = Inr (Some (1, ''a''), ?s1)"
    by (simp add: step_defs fake_defs)
  have r: "vfs_resolve ?e 1 ''a'' (vfs_fs_exlock 1 ?s1) = ((0, 7), ?s2)"
    by (simp add: step_defs fake_defs)
  have f: "fs_at (heap ?s2) 1 = Some ?f" by (simp add: step_defs fake_defs)
  have n: "fsops_open (fsops ?f) \<noteq> NULL" by (simp add: fake_defs)
  have d1: "drv_open ?e (fsops_open (fsops ?f)) 7 NULL (O_RDWR OR O_CLOEXEC) 0 (heap ?s2) = ((0, 3), ?w)"
    by (simp add: fake_defs)
  have d2: "drv_open ?e (fsops_open (fsops ?f)) 7 NULL O_RDWR 0 (heap ?s2) = ((0, 3), ?w)"
    by (simp add: fake_defs)
  have h: "handle_at ?w 3 = Some opened_handle" by (simp add: handle_at_def)
  have c: "fd_flags opened_handle AND FD_CLOEXEC = 0" by (simp add: fake_defs const_defs)
  obtain t1 where
    o1: "vfs_open ?e ''/a'' NULL (O_RDWR OR O_CLOEXEC) 0 ?s = Inr ((0, 3), t1)"
    and k1: "handles (heap t1) =
               (handles ?w)(3 \<mapsto> opened_handle\<lparr>fl_flags := O_RDWR OR O_CLOEXEC,
                  fd_flags := (if (O_RDWR OR O_CLOEXEC) AND O_CLOEXEC \<noteq> 0
                               then fd_flags opened_handle OR FD_CLOEXEC
                               else fd_flags opened_handle)\<rparr>)"
    using vfs_open_stamps_flags
            [where path = "''/a''" and flags = "O_RDWR OR O_CLOEXEC" and env = ?e and s = ?s
               and fs = 1 and fs_path = "''a''" and ?s1.0 = ?s1 and p = 7 and ?s2.0 = ?s2
               and f = ?f and out = NULL and mode = 0 and d = 3 and w = ?w
               and dh = opened_handle,
             THEN conjunct2, rule_format, OF a b1 b2 g r f n d1 h]
    by blast
  obtain t2 where
    o2: "vfs_open ?e ''/a'' NULL O_RDWR 0 ?s = Inr ((0, 3), t2)"
    and k2: "handles (heap t2) =
               (handles ?w)(3 \<mapsto> opened_handle\<lparr>fl_flags := O_RDWR,
                  fd_flags := (if O_RDWR AND O_CLOEXEC \<noteq> 0
                               then fd_flags opened_handle OR FD_CLOEXEC
                               else fd_flags opened_handle)\<rparr>)"
    using vfs_open_stamps_flags
            [where path = "''/a''" and flags = O_RDWR and env = ?e and s = ?s
               and fs = 1 and fs_path = "''a''" and ?s1.0 = ?s1 and p = 7 and ?s2.0 = ?s2
               and f = ?f and out = NULL and mode = 0 and d = 3 and w = ?w
               and dh = opened_handle,
             THEN conjunct2, rule_format, OF a b3 b4 g r f n d2 h]
    by blast
  have "handle_at (heap t1) 3
          = Some \<lparr>hb_fs = 1, fops = full_fops, fd_flags = 5, fl_flags = O_RDWR OR O_CLOEXEC\<rparr>"
    using k1 b5 by (simp add: handle_at_def opened_handle_def FD_CLOEXEC_def)
  moreover have "handle_at (heap t2) 3
          = Some \<lparr>hb_fs = 1, fops = full_fops, fd_flags = 4, fl_flags = O_RDWR\<rparr>"
    using k2 b6 by (simp add: handle_at_def opened_handle_def)
  ultimately show ?thesis using c b5 b6 o1 o2 by blast
qed

subsection \<open>Dup\<close>

text \<open>
  Claim C5. For every non-null handle, \<^verbatim>\<open>vfs_dup\<close> passes an error of the driver through
  unchanged. When the driver succeeds and has produced a handle, \<^verbatim>\<open>vfs_dup\<close> returns 0, the
  descriptor flags of the duplicate are 0 (whatever the original has, so close-on-exec is
  not inherited), the original keeps its flags, and the reference count of the owning
  filesystem is one more than the driver left it; no other filesystem is touched.
\<close>

theorem vfs_dup_retains:
  assumes "h \<noteq> NULL"
    and "handle_at (heap s) h = Some hb"
    and "fs_at (heap s) (hb_fs hb) = Some f"
    and "fsops_dup (fsops f) \<noteq> NULL"
    and "drv_dup env (fsops_dup (fsops f)) h dup_h (heap s) = ((rc, d), w)"
  shows "(rc \<noteq> 0 \<longrightarrow>
            vfs_dup env h dup_h s =
              Inr ((rc, d), s\<lparr>heap := w, trace := trace s @ [Driver OpDup (fsops_dup (fsops f))]\<rparr>)) \<and>
         (rc = 0 \<longrightarrow> handle_at w d = Some dh \<longrightarrow> handle_at w h = Some hb1 \<longrightarrow>
            fs_at w (hb_fs hb1) = Some f1 \<longrightarrow>
            (\<exists>s'. vfs_dup env h dup_h s = Inr ((0, d), s') \<and>
                  handle_at (heap s') d = Some (dh\<lparr>fd_flags := 0\<rparr>) \<and>
                  fss (heap s') = (fss w)(hb_fs hb1 \<mapsto> f1\<lparr>ref_count := ref_count f1 + 1\<rparr>) \<and>
                  (d \<noteq> h \<longrightarrow> handle_at (heap s') h = Some hb1) \<and>
                  new_events s s' = [Driver OpDup (fsops_dup (fsops f)), Retain (hb_fs hb1)]))"
proof (intro conjI impI)
  assume "rc \<noteq> 0"
  with assms show "vfs_dup env h dup_h s =
      Inr ((rc, d), s\<lparr>heap := w, trace := trace s @ [Driver OpDup (fsops_dup (fsops f))]\<rparr>)"
    by (simp add: vfs_dup_def call_drv_def emit_def)
next
  assume rc: "rc = 0" and dh: "handle_at w d = Some dh" and hb1: "handle_at w h = Some hb1"
    and f1: "fs_at w (hb_fs hb1) = Some f1"
  have dn: "d \<noteq> NULL" using dh by (auto simp: handle_at_def split: if_splits)
  have fn: "hb_fs hb1 \<noteq> NULL" using f1 by (auto simp: fs_at_def split: if_splits)
  show "\<exists>s'. vfs_dup env h dup_h s = Inr ((0, d), s') \<and>
             handle_at (heap s') d = Some (dh\<lparr>fd_flags := 0\<rparr>) \<and>
             fss (heap s') = (fss w)(hb_fs hb1 \<mapsto> f1\<lparr>ref_count := ref_count f1 + 1\<rparr>) \<and>
             (d \<noteq> h \<longrightarrow> handle_at (heap s') h = Some hb1) \<and>
             new_events s s' = [Driver OpDup (fsops_dup (fsops f)), Retain (hb_fs hb1)]"
  proof (cases "d = h")
    case True
    with assms rc dh hb1 f1 dn fn show ?thesis
      by (simp add: vfs_dup_def call_drv_def emit_def retain_obj_def handle_at_def fs_at_def
                    new_events_def Let_def)
  next
    case False
    with assms rc dh hb1 f1 dn fn show ?thesis
      by (simp add: vfs_dup_def call_drv_def emit_def retain_obj_def handle_at_def fs_at_def
                    new_events_def Let_def)
  qed
qed

theorem vfs_dup_retains_witness:
  "returned (vfs_dup (fake_env 0 (- 5)) 2 NULL (fake_state VFS_FS_RW full_fs_ops 0 full_fops))
     = Some (- 5, NULL) \<and>
   returned (vfs_dup (fake_env 0 0) 2 NULL (fake_state VFS_FS_RW full_fs_ops 0 full_fops))
     = Some (0, 3) \<and>
   ref_count_of 1 (vfs_dup (fake_env 0 0) 2 NULL (fake_state VFS_FS_RW full_fs_ops 0 full_fops))
     = Some 2 \<and>
   fd_flags (fake_handle 0 full_fops) = FD_CLOEXEC \<and>
   (\<exists>s'. vfs_dup (fake_env 0 0) 2 NULL (fake_state VFS_FS_RW full_fs_ops 0 full_fops)
            = Inr ((0, 3), s') \<and>
         handle_at (heap s') 3 = Some ((fake_handle 0 full_fops)\<lparr>fd_flags := 0\<rparr>) \<and>
         handle_at (heap s') 2 = Some (fake_handle 0 full_fops))"
proof -
  let ?s = "fake_state VFS_FS_RW full_fs_ops 0 full_fops"
  let ?f = "\<lparr>fs_flags = VFS_FS_RW, ref_count = 1, fsops = full_fs_ops\<rparr>"
  let ?hb = "fake_handle 0 full_fops"
  let ?w = "(heap ?s)\<lparr>handles := (handles (heap ?s))(3 \<mapsto> ?hb)\<rparr>"
  have a: "(2::nat) \<noteq> NULL" by simp
  have b: "handle_at (heap ?s) 2 = Some ?hb" by (simp add: fake_defs handle_at_def)
  have c: "fs_at (heap ?s) (hb_fs ?hb) = Some ?f" by (simp add: fake_defs fs_at_def)
  have d: "fsops_dup (fsops ?f) \<noteq> NULL" by (simp add: fake_defs)
  have e1: "drv_dup (fake_env 0 (- 5)) (fsops_dup (fsops ?f)) 2 NULL (heap ?s) = ((- 5, NULL), heap ?s)"
    by (simp add: fake_defs)
  have e2: "drv_dup (fake_env 0 0) (fsops_dup (fsops ?f)) 2 NULL (heap ?s) = ((0, 3), ?w)"
    by (simp add: fake_defs)
  have g: "handle_at ?w 3 = Some ?hb" "handle_at ?w 2 = Some ?hb" "fs_at ?w (hb_fs ?hb) = Some ?f"
    by (simp_all add: fake_defs handle_at_def fs_at_def)
  from vfs_dup_retains [OF a b c d e1] vfs_dup_retains [OF a b c d e2, of ?hb ?hb ?f] g
  show ?thesis
    by (auto simp: outcome_defs fs_at_def fake_handle_def)
qed

subsection \<open>Read and write\<close>

text \<open>
  Claim C8, as amended. \<^verbatim>\<open>vfs_read\<close> rejects the call with \<^verbatim>\<open>-EBADF\<close>, the state left as it was and so
  the driver not invoked, exactly when the driver has no read operation or the open-mode
  flags have \<^verbatim>\<open>O_WRONLY\<close> set and \<^verbatim>\<open>O_RDWR\<close> clear (a handle with both bits set is
  readable). \<^verbatim>\<open>vfs_write\<close> does so exactly when the driver has no write operation or
  neither \<^verbatim>\<open>O_WRONLY\<close> nor \<^verbatim>\<open>O_RDWR\<close> is set. In every other case the driver is called once,
  between taking and dropping the handle lock (shared for read, exclusive for write), and
  its result is returned as it is.
\<close>

theorem vfs_read_write_ebadf:
  assumes "h \<noteq> NULL" and "handle_at (heap s) h = Some hb"
    and "drv_read env (fops_read (fops hb)) h buf n (heap s) = (rret, rw)"
    and "drv_write env (fops_write (fops hb)) h buf n (heap s) = (wret, ww)"
  shows "((vfs_read env h buf n s = Inr (- EBADF, s)) =
            (fops_read (fops hb) = NULL \<or>
             (fl_flags hb AND O_WRONLY \<noteq> 0 \<and> fl_flags hb AND O_RDWR = 0))) \<and>
         ((vfs_write env h buf n s = Inr (- EBADF, s)) =
            (fops_write (fops hb) = NULL \<or>
             (fl_flags hb AND O_WRONLY = 0 \<and> fl_flags hb AND O_RDWR = 0))) \<and>
         (vfs_read env h buf n s \<noteq> Inr (- EBADF, s) \<longrightarrow>
            vfs_read env h buf n s =
              Inr (rret, s\<lparr>heap := rw, trace := trace s @
                     [Shlock h, Driver OpRead (fops_read (fops hb)), Shunlock h]\<rparr>)) \<and>
         (vfs_write env h buf n s \<noteq> Inr (- EBADF, s) \<longrightarrow>
            vfs_write env h buf n s =
              Inr (wret, s\<lparr>heap := ww, trace := trace s @
                     [Exlock h, Driver OpWrite (fops_write (fops hb)), Exunlock h]\<rparr>))"
  using assms
  by (auto simp: vfs_read_def vfs_write_def call_drv_def vfs_shlock_def vfs_shunlock_def
                 vfs_exlock_def vfs_exunlock_def emit_def and_or_zero_iff trace_grows_neq)

theorem vfs_read_write_ebadf_witness:
  "(vfs_read (fake_env 0 2) 2 0 2 (fake_state VFS_FS_RW full_fs_ops O_WRONLY full_fops)
      = Inr (- EBADF, fake_state VFS_FS_RW full_fs_ops O_WRONLY full_fops)) \<and>
   returned (vfs_write (fake_env 0 2) 2 0 2 (fake_state VFS_FS_RW full_fs_ops O_WRONLY full_fops))
      = Some 2 \<and>
   events_of (vfs_write (fake_env 0 2) 2 0 2 (fake_state VFS_FS_RW full_fs_ops O_WRONLY full_fops))
      = [Exlock 2, Driver OpWrite 21, Exunlock 2]"
proof -
  let ?s = "fake_state VFS_FS_RW full_fs_ops O_WRONLY full_fops"
  let ?hb = "fake_handle O_WRONLY full_fops"
  have a: "(2::nat) \<noteq> NULL" by simp
  have b: "handle_at (heap ?s) 2 = Some ?hb" by (simp add: fake_defs handle_at_def)
  have c: "drv_read (fake_env 0 2) (fops_read (fops ?hb)) 2 0 2 (heap ?s) = (2, heap ?s)"
    by (simp add: fake_defs)
  have d: "drv_write (fake_env 0 2) (fops_write (fops ?hb)) 2 0 2 (heap ?s) = (2, heap ?s)"
    by (simp add: fake_defs)
  from vfs_read_write_ebadf [OF a b c d] show ?thesis
    by (auto simp: outcome_defs fake_defs const_defs)
qed


text \<open>
  Claim C8 as stated fails: the result of the driver is passed through, and a driver may
  answer \<^verbatim>\<open>-EBADF\<close> itself. On a handle opened with \<^verbatim>\<open>O_RDWR\<close> whose driver has both
  operations, \<^verbatim>\<open>vfs_read\<close> and \<^verbatim>\<open>vfs_write\<close> return \<^verbatim>\<open>-EBADF\<close> after the driver was
  invoked.
\<close>

theorem vfs_read_write_driver_ebadf:
  "returned (vfs_read (fake_env 0 (- EBADF)) 2 0 2 (fake_state VFS_FS_RW full_fs_ops O_RDWR full_fops))
     = Some (- EBADF) \<and>
   events_of (vfs_read (fake_env 0 (- EBADF)) 2 0 2 (fake_state VFS_FS_RW full_fs_ops O_RDWR full_fops))
     = [Shlock 2, Driver OpRead 20, Shunlock 2] \<and>
   returned (vfs_write (fake_env 0 (- EBADF)) 2 0 2 (fake_state VFS_FS_RW full_fs_ops O_RDWR full_fops))
     = Some (- EBADF) \<and>
   events_of (vfs_write (fake_env 0 (- EBADF)) 2 0 2 (fake_state VFS_FS_RW full_fs_ops O_RDWR full_fops))
     = [Exlock 2, Driver OpWrite 21, Exunlock 2] \<and>
   handle_at (heap (fake_state VFS_FS_RW full_fs_ops O_RDWR full_fops)) 2
     = Some (fake_handle O_RDWR full_fops) \<and>
   fops_read (fops (fake_handle O_RDWR full_fops)) \<noteq> NULL \<and>
   fops_write (fops (fake_handle O_RDWR full_fops)) \<noteq> NULL \<and>
   fl_flags (fake_handle O_RDWR full_fops) AND O_WRONLY = 0 \<and>
   fl_flags (fake_handle O_RDWR full_fops) AND O_RDWR \<noteq> 0"
  by (simp add: vfs_read_def vfs_write_def step_defs fake_defs const_defs outcome_defs)

subsection \<open>The reference taken by the lookup\<close>

lemma vfs_mkdir_releases:
  assumes "is_absolute path"
    and "get_retained_fs_at env path s = Inr (Some (fs, fs_path), s1)"
    and "fs_at (heap s1) fs = Some f"
    and "fs_flags f AND VFS_FS_RW \<noteq> 0" and "fsops_mkdir (fsops f) \<noteq> NULL"
    and "vfs_mkdir env path mode s = Inr (rc, s')"
  shows "releases fs (new_events s s') = 1"
proof -
  obtain rc0 p s2 where r: "vfs_resolve env fs fs_path (vfs_fs_exlock fs s1) = ((rc0, p), s2)"
    by (metis prod.exhaust)
  have t1: "trace s1 = trace s @ [Lookup path, Retain fs]"
    using assms(2) by (rule get_retained_fs_at_trace)
  have t2: "trace s2 = trace s1 @ [FsExlock fs, Resolve fs fs_path]"
    using vfs_resolve_trace [OF r] by (simp add: vfs_fs_exlock_def trace_emit)
  have "\<exists>evs. (evs = [] \<or> (\<exists>fn. evs = [Driver OpMkdir fn])) \<and>
           trace s' = trace s2 @ evs @ [FsExunlock fs, Release fs]"
    using assms r
    by (auto simp: vfs_mkdir_def vfs_fs_exunlock_def trace_emit
             split: if_splits option.splits sum.splits
             dest!: call_drv_trace release_obj_trace)
  with t1 t2 show ?thesis
    by (auto simp: releases_def new_events_def)
qed

lemma vfs_rmdir_releases:
  assumes "is_absolute path"
    and "get_retained_fs_at env path s = Inr (Some (fs, fs_path), s1)"
    and "fs_at (heap s1) fs = Some f"
    and "fs_flags f AND VFS_FS_RW \<noteq> 0" and "fsops_rmdir (fsops f) \<noteq> NULL"
    and "vfs_rmdir env path s = Inr (rc, s')"
  shows "releases fs (new_events s s') = 1"
proof -
  obtain rc0 p s2 where r: "vfs_resolve env fs fs_path (vfs_fs_exlock fs s1) = ((rc0, p), s2)"
    by (metis prod.exhaust)
  have t1: "trace s1 = trace s @ [Lookup path, Retain fs]"
    using assms(2) by (rule get_retained_fs_at_trace)
  have t2: "trace s2 = trace s1 @ [FsExlock fs, Resolve fs fs_path]"
    using vfs_resolve_trace [OF r] by (simp add: vfs_fs_exlock_def trace_emit)
  have "\<exists>evs. (evs = [] \<or> (\<exists>fn. evs = [Driver OpRmdir fn])) \<and>
           trace s' = trace s2 @ evs @ [FsExunlock fs, Release fs]"
    using assms r
    by (auto simp: vfs_rmdir_def vfs_fs_exunlock_def trace_emit
             split: if_splits option.splits sum.splits
             dest!: call_drv_trace release_obj_trace)
  with t1 t2 show ?thesis
    by (auto simp: releases_def new_events_def)
qed

lemma vfs_unlink_releases:
  assumes "is_absolute path"
    and "get_retained_fs_at env path s = Inr (Some (fs, fs_path), s1)"
    and "fs_at (heap s1) fs = Some f"
    and "fs_flags f AND VFS_FS_RW \<noteq> 0" and "fsops_unlink (fsops f) \<noteq> NULL"
    and "vfs_unlink env path s = Inr (rc, s')"
  shows "releases fs (new_events s s') = 1"
proof -
  obtain rc0 p s2 where r: "vfs_resolve env fs fs_path (vfs_fs_exlock fs s1) = ((rc0, p), s2)"
    by (metis prod.exhaust)
  have t1: "trace s1 = trace s @ [Lookup path, Retain fs]"
    using assms(2) by (rule get_retained_fs_at_trace)
  have t2: "trace s2 = trace s1 @ [FsExlock fs, Resolve fs fs_path]"
    using vfs_resolve_trace [OF r] by (simp add: vfs_fs_exlock_def trace_emit)
  have "\<exists>evs. (evs = [] \<or> (\<exists>fn. evs = [Driver OpUnlink fn])) \<and>
           trace s' = trace s2 @ evs @ [FsExunlock fs, Release fs]"
    using assms r
    by (auto simp: vfs_unlink_def vfs_fs_exunlock_def trace_emit
             split: if_splits option.splits sum.splits
             dest!: call_drv_trace release_obj_trace)
  with t1 t2 show ?thesis
    by (auto simp: releases_def new_events_def)
qed

lemma vfs_open_releases:
  assumes "is_absolute path"
    and "flags AND O_ASYNC = 0" and "flags AND O_TMPFILE \<noteq> O_TMPFILE"
    and "get_retained_fs_at env path s = Inr (Some (fs, fs_path), s1)"
    and "vfs_open env path out flags mode s = Inr ((rc, h), s')"
  shows "releases fs (new_events s s') = (if rc = 0 then 0 else 1)"
proof -
  obtain rc0 p s2 where r: "vfs_resolve env fs fs_path (vfs_fs_exlock fs s1) = ((rc0, p), s2)"
    by (metis prod.exhaust)
  have t1: "trace s1 = trace s @ [Lookup path, Retain fs]"
    using assms(4) by (rule get_retained_fs_at_trace)
  have t2: "trace s2 = trace s1 @ [FsExlock fs, Resolve fs fs_path]"
    using vfs_resolve_trace [OF r] by (simp add: vfs_fs_exlock_def trace_emit)
  have "\<exists>evs. (evs = [] \<or> (\<exists>fn. evs = [Driver OpOpen fn])) \<and>
           trace s' = trace s2 @ evs @
             (if rc = 0 then [FsExunlock fs] else [FsExunlock fs, Release fs])"
    using assms r
    by (auto simp: vfs_open_def Let_def vfs_fs_exunlock_def trace_emit
             split: if_splits option.splits sum.splits
             dest!: call_drv_trace release_obj_trace)
  with t1 t2 show ?thesis
    by (auto simp: releases_def new_events_def)
qed

text \<open>
  Claim C1, as amended. Let the lookup of the mount registry succeed and retain \<open>fs\<close>.
  \<^verbatim>\<open>vfs_open\<close>, once past its checks of the flags, releases \<open>fs\<close> exactly once when it
  returns a failure (of the resolver or of the driver) and does not release it when it
  returns success: the reference then belongs to the new handle. \<^verbatim>\<open>vfs_mkdir\<close>,
  \<^verbatim>\<open>vfs_rmdir\<close> and \<^verbatim>\<open>vfs_unlink\<close>, on a read-write mount whose driver has the operation,
  release \<open>fs\<close> exactly once on every return (failure of the resolver, failure of the
  driver, success).
\<close>

theorem retained_fs_released:
  assumes "is_absolute path"
    and "get_retained_fs_at env path s = Inr (Some (fs, fs_path), s1)"
    and "fs_at (heap s1) fs = Some f"
  shows "(flags AND O_ASYNC = 0 \<longrightarrow> flags AND O_TMPFILE \<noteq> O_TMPFILE \<longrightarrow>
            vfs_open env path out flags mode s = Inr ((rc, h), s') \<longrightarrow>
            releases fs (new_events s s') = (if rc = 0 then 0 else 1)) \<and>
         (fs_flags f AND VFS_FS_RW \<noteq> 0 \<longrightarrow> fsops_mkdir (fsops f) \<noteq> NULL \<longrightarrow>
            vfs_mkdir env path mode s = Inr (rc, s') \<longrightarrow> releases fs (new_events s s') = 1) \<and>
         (fs_flags f AND VFS_FS_RW \<noteq> 0 \<longrightarrow> fsops_rmdir (fsops f) \<noteq> NULL \<longrightarrow>
            vfs_rmdir env path s = Inr (rc, s') \<longrightarrow> releases fs (new_events s s') = 1) \<and>
         (fs_flags f AND VFS_FS_RW \<noteq> 0 \<longrightarrow> fsops_unlink (fsops f) \<noteq> NULL \<longrightarrow>
            vfs_unlink env path s = Inr (rc, s') \<longrightarrow> releases fs (new_events s s') = 1)"
  using vfs_open_releases [OF assms(1) _ _ assms(2)]
        vfs_mkdir_releases [OF assms] vfs_rmdir_releases [OF assms] vfs_unlink_releases [OF assms]
  by blast

theorem retained_fs_released_witness:
  "returned (vfs_mkdir (fake_env 0 (- 5)) ''/a'' 0 (fake_state VFS_FS_RW full_fs_ops 0 full_fops))
     = Some (- 5) \<and>
   releases 1 (events_of
     (vfs_mkdir (fake_env 0 (- 5)) ''/a'' 0 (fake_state VFS_FS_RW full_fs_ops 0 full_fops))) = 1 \<and>
   returned (vfs_unlink (fake_env 0 0) ''/a'' (fake_state VFS_FS_RW full_fs_ops 0 full_fops))
     = Some 0 \<and>
   releases 1 (events_of
     (vfs_unlink (fake_env 0 0) ''/a'' (fake_state VFS_FS_RW full_fs_ops 0 full_fops))) = 1 \<and>
   returned (vfs_open (fake_env (- 2) 0) ''/a'' NULL O_RDWR 0
               (fake_state VFS_FS_RW full_fs_ops 0 full_fops)) = Some (- 2, NULL) \<and>
   releases 1 (events_of
     (vfs_open (fake_env (- 2) 0) ''/a'' NULL O_RDWR 0
        (fake_state VFS_FS_RW full_fs_ops 0 full_fops))) = 1 \<and>
   returned (vfs_open (fake_env 0 0) ''/a'' NULL O_RDWR 0
               (fake_state VFS_FS_RW full_fs_ops 0 full_fops)) = Some (0, 3) \<and>
   releases 1 (events_of
     (vfs_open (fake_env 0 0) ''/a'' NULL O_RDWR 0
        (fake_state VFS_FS_RW full_fs_ops 0 full_fops))) = 0"
proof -
  let ?s = "fake_state VFS_FS_RW full_fs_ops 0 full_fops"
  let ?f = "\<lparr>fs_flags = VFS_FS_RW, ref_count = 2, fsops = full_fs_ops\<rparr>"
  have a: "is_absolute ''/a''" by (simp add: is_absolute_def)
  have e: "trace ?s = []" by (simp add: fake_defs)
  obtain s1 where g1: "get_retained_fs_at (fake_env 0 (- 5)) ''/a'' ?s = Inr (Some (1, ''a''), s1)"
    and f1: "fs_at (heap s1) 1 = Some ?f"
    by (simp add: step_defs fake_defs)
  obtain t1 where m: "vfs_mkdir (fake_env 0 (- 5)) ''/a'' 0 ?s = Inr (- 5, t1)"
    by (simp add: vfs_mkdir_def step_defs fake_defs const_defs)
  obtain s2 where g2: "get_retained_fs_at (fake_env (- 2) 0) ''/a'' ?s = Inr (Some (1, ''a''), s2)"
    and f2: "fs_at (heap s2) 1 = Some ?f"
    by (simp add: step_defs fake_defs)
  obtain t2 where
    o: "vfs_open (fake_env (- 2) 0) ''/a'' NULL O_RDWR 0 ?s = Inr ((- 2, NULL), t2)"
    by (simp add: vfs_open_def step_defs fake_defs const_defs)
  obtain s3 where g3: "get_retained_fs_at (fake_env 0 0) ''/a'' ?s = Inr (Some (1, ''a''), s3)"
    and f3: "fs_at (heap s3) 1 = Some ?f"
    by (simp add: step_defs fake_defs)
  obtain t3 where u: "vfs_unlink (fake_env 0 0) ''/a'' ?s = Inr (0, t3)"
    by (simp add: vfs_unlink_def step_defs fake_defs const_defs)
  obtain t4 where
    p: "vfs_open (fake_env 0 0) ''/a'' NULL O_RDWR 0 ?s = Inr ((0, 3), t4)"
    by (simp add: vfs_open_def step_defs fake_defs const_defs)
  have "releases 1 (new_events ?s t1) = 1"
    using retained_fs_released [OF a g1 f1, where rc = "- 5" and s' = t1 and mode = 0] m
    by (simp add: fake_defs const_defs)
  moreover have "releases 1 (new_events ?s t2) = 1"
    using retained_fs_released [OF a g2 f2, where flags = O_RDWR and out = NULL and mode = 0
                                  and rc = "- 2" and h = NULL and s' = t2] o
    by (simp add: const_defs)
  moreover have "releases 1 (new_events ?s t3) = 1"
    using retained_fs_released [OF a g3 f3, where rc = 0 and s' = t3] u
    by (simp add: fake_defs const_defs)
  moreover have "releases 1 (new_events ?s t4) = 0"
    using retained_fs_released [OF a g3 f3, where flags = O_RDWR and out = NULL and mode = 0
                                  and rc = 0 and h = 3 and s' = t4] p
    by (simp add: const_defs)
  ultimately show ?thesis
    using m o u p e by (simp add: outcome_defs new_events_def)
qed

text \<open>
  Claim C1 as stated fails on two return paths. A successful \<^verbatim>\<open>vfs_open\<close> returns without
  a release: the trace of the call has none and the reference count stays at 2, one above
  its value before the call. \<^verbatim>\<open>vfs_mkdir\<close> on a read-only mount returns \<^verbatim>\<open>-EROFS\<close>
  right after the lookup: the trace is the lookup and its retain, and the reference count
  stays at 2 as well.
\<close>

theorem retained_fs_not_released:
  "returned (vfs_open (fake_env 0 0) ''/a'' NULL O_RDWR 0
               (fake_state VFS_FS_RW full_fs_ops 0 full_fops)) = Some (0, 3) \<and>
   events_of (vfs_open (fake_env 0 0) ''/a'' NULL O_RDWR 0
                (fake_state VFS_FS_RW full_fs_ops 0 full_fops))
     = [Lookup ''/a'', Retain 1, FsExlock 1, Resolve 1 ''a'', Driver OpOpen 10, FsExunlock 1] \<and>
   ref_count_of 1 (vfs_open (fake_env 0 0) ''/a'' NULL O_RDWR 0
                     (fake_state VFS_FS_RW full_fs_ops 0 full_fops)) = Some 2 \<and>
   returned (vfs_mkdir (fake_env 0 0) ''/a'' 0 (fake_state 0 full_fs_ops 0 full_fops))
     = Some (- EROFS) \<and>
   events_of (vfs_mkdir (fake_env 0 0) ''/a'' 0 (fake_state 0 full_fs_ops 0 full_fops))
     = [Lookup ''/a'', Retain 1] \<and>
   releases 1 [Lookup ''/a'', Retain 1] = 0 \<and>
   ref_count_of 1 (vfs_mkdir (fake_env 0 0) ''/a'' 0 (fake_state 0 full_fs_ops 0 full_fops))
     = Some 2"
  by (simp add: vfs_open_def vfs_mkdir_def step_defs fake_defs const_defs outcome_defs
                releases_def)


end
